theory Spec2Isabelle
  imports Complex_Main
begin

section \<open>Values exchanged with the publishing platform\<close>

text \<open>
  The publishing step is \<^verbatim>\<open>src/GooglePlay.ts\<close>. The version codes of a track and of the
  uploaded packages are JavaScript numbers that hold integers; they are modelled as
  \<^typ>\<open>int\<close>. Strings are lists of code units below 256.
\<close>

text \<open>Every way in which the modelled code throws.\<close>

datatype error =
    CannotDownloadTrack string string
    \<comment> \<open>\<^verbatim>\<open>new Error(tl.loc('CannotDownloadTrack', track, e))\<close>\<close>
  | CannotUpdateTrack string string
    \<comment> \<open>\<^verbatim>\<open>new Error(tl.loc('CannotUpdateTrack', track, e))\<close>\<close>
  | IncorrectVersionCodeFilter "string list"
    \<comment> \<open>\<^verbatim>\<open>new Error(tl.loc('IncorrectVersionCodeFilter', ...))\<close>\<close>
  | InputRequired string
    \<comment> \<open>\<^verbatim>\<open>tl.getInput(name, true)\<close> on an absent input\<close>
  | TypeError
    \<comment> \<open>a property read or a method call on \<^verbatim>\<open>undefined\<close> or \<^verbatim>\<open>null\<close>\<close>
  | SyntaxError
    \<comment> \<open>\<^verbatim>\<open>new RegExp\<close> on an invalid pattern\<close>

text \<open>
  A number that \<^verbatim>\<open>parseInt\<close> returns: not a number, an integer, or an infinity (from a
  run of digits too long for a double).
\<close>

datatype number = NaN | Finite int | PosInfinity | NegInfinity

text \<open>\<^verbatim>\<open>googleutil.Track\<close>: only \<^verbatim>\<open>releases[0].versionCodes\<close>, a \<^verbatim>\<open>number[]\<close>, is read.\<close>

record Release =
  versionCodes :: "int list"

record Track =
  releases :: "Release list"

text \<open>
  The value of \<^verbatim>\<open>versionCodeFilter: string | number[]\<close>, which \<^verbatim>\<open>run\<close> initialises
  to \<^verbatim>\<open>null\<close>. The numbers of the list are those that \<^verbatim>\<open>parseInt\<close> returned.
\<close>

datatype VersionCodeFilter = Null | Expression string | CodeList "number list"

text \<open>The pass-through arguments of \<^verbatim>\<open>updateTrack\<close>.\<close>

record ReleaseOptions =
  userFraction :: rat
  updatePriority :: int
  releaseNotes :: "(string \<times> string) list option"

text \<open>
  The collaborator \<^verbatim>\<open>googleutil\<close>: what its two calls answer (\<open>Inl e\<close>: the call throws
  \<open>e\<close>). The calls made are recorded in a log. The argument \<open>edits\<close> of the modelled
  functions is this collaborator.
\<close>

datatype call = GetTrack string string | UpdateTrack string string "int list" ReleaseOptions

record googleutil =
  gu_getTrack :: "string \<Rightarrow> string \<Rightarrow> string + Track"
  gu_updateTrack :: "string \<Rightarrow> string \<Rightarrow> int list \<Rightarrow> ReleaseOptions \<Rightarrow> string + Track"

section \<open>The built-ins of the language\<close>

text \<open>
  The code calls three built-ins whose answers the development does not fix: they are an
  argument \<open>js\<close> of every modelled function, and every general statement holds for each
  value of it.
  \<^item> \<open>js_RegExp source\<close> is \<^verbatim>\<open>new RegExp(source)\<close>: \<open>None\<close> when the constructor throws
    its syntax error, otherwise the compiled expression, given by what
    \<^verbatim>\<open>str.match(re)\<close> answers for each string (\<open>True\<close>: an array, \<open>False\<close>: \<^verbatim>\<open>null\<close>).
  \<^item> \<open>js_toString v\<close> is \<^verbatim>\<open>v.toString()\<close> of a version code.
  \<^item> \<open>js_parseInt str\<close> is \<^verbatim>\<open>parseInt(str, 10)\<close>.
\<close>

type_synonym regexp = "string \<Rightarrow> bool"

record runtime =
  js_RegExp :: "string \<Rightarrow> regexp option"
  js_toString :: "int \<Rightarrow> string"
  js_parseInt :: "string \<Rightarrow> number"

text \<open>Truthiness of a number, and its comparison with zero.\<close>

fun truthy :: "number \<Rightarrow> bool" where
  "truthy NaN = False"
| "truthy (Finite n) = (n \<noteq> 0)"
| "truthy PosInfinity = True"
| "truthy NegInfinity = True"

fun greater_than_zero :: "number \<Rightarrow> bool" where
  "greater_than_zero NaN = False"
| "greater_than_zero (Finite n) = (n > 0)"
| "greater_than_zero PosInfinity = True"
| "greater_than_zero NegInfinity = False"

text \<open>
  \<^verbatim>\<open>String.prototype.trim()\<close> removes white space and line terminators from both ends
  (those below 256: TAB, LF, VT, FF, CR, SP, NBSP).
\<close>

definition is_space :: "char \<Rightarrow> bool" where
  "is_space c \<longleftrightarrow> (of_char c :: nat) \<in> {9, 10, 11, 12, 13, 32, 160}"

definition trim :: "string \<Rightarrow> string" where
  "trim s = rev (dropWhile is_space (rev (dropWhile is_space s)))"

section \<open>Arrays\<close>

text \<open>\<^verbatim>\<open>Array.prototype.push\<close>, \<^verbatim>\<open>indexOf\<close> (strict equality, \<open>-1\<close> when absent) and
  \<^verbatim>\<open>forEach\<close> with a callback that updates the captured array or throws.\<close>

definition push :: "'a list \<Rightarrow> 'a \<Rightarrow> 'a list" where
  "push xs x = xs @ [x]"

fun indexOf_from :: "'a list \<Rightarrow> 'a \<Rightarrow> int \<Rightarrow> int" where
  "indexOf_from [] x i = -1"
| "indexOf_from (y # ys) x i = (if y = x then i else indexOf_from ys x (i + 1))"

definition indexOf :: "'a list \<Rightarrow> 'a \<Rightarrow> int" where
  "indexOf xs x = indexOf_from xs x 0"

fun forEach :: "'a list \<Rightarrow> ('a \<Rightarrow> 's \<Rightarrow> error + 's) \<Rightarrow> 's \<Rightarrow> error + 's" where
  "forEach [] f s = Inr s"
| "forEach (x # xs) f s = (case f x s of Inl e \<Rightarrow> Inl e | Inr s' \<Rightarrow> forEach xs f s')"

section \<open>The version-code filter from the inputs\<close>

text \<open>
  \<^verbatim>\<open>getVersionCodeListInput\<close> (lines 387--407). Its argument is what
  \<^verbatim>\<open>tl.getDelimitedInput('replaceList', ',', false)\<close> returns; the loop state is the pair of
  \<^verbatim>\<open>versionCodeFilter\<close> and \<^verbatim>\<open>incorrectCodes\<close>.
\<close>

definition checkVersionCode ::
  "runtime \<Rightarrow> string \<Rightarrow> number list \<times> string list \<Rightarrow> number list \<times> string list" where
  "checkVersionCode js versionCode st =
     (let versionCodeNumber = js_parseInt js (trim versionCode)
      in if truthy versionCodeNumber \<and> greater_than_zero versionCodeNumber
         then (push (fst st) versionCodeNumber, snd st)
         else (fst st, push (snd st) (trim versionCode)))"

definition getVersionCodeListInput :: "runtime \<Rightarrow> string list \<Rightarrow> error + number list" where
  "getVersionCodeListInput js versionCodeFilterInput =
     (let st = fold (checkVersionCode js) versionCodeFilterInput ([], [])
      in if length (snd st) > 0 then Inl (IncorrectVersionCodeFilter (snd st))
         else Inr (fst st))"

text \<open>
  Lines 50--56 of \<^verbatim>\<open>run\<close>. \<^verbatim>\<open>tl.getInput\<close> of an input that is not set is
  \<open>None\<close>; the required input \<^verbatim>\<open>replaceExpression\<close> throws when it is not set.
\<close>

definition versionCodeFilter_input ::
  "runtime \<Rightarrow> string option \<Rightarrow> string list \<Rightarrow> string option \<Rightarrow> error + VersionCodeFilter" where
  "versionCodeFilter_input js versionCodeFilterType replaceList replaceExpression =
     (if versionCodeFilterType = Some ''list'' then
        (case getVersionCodeListInput js replaceList of
           Inl e \<Rightarrow> Inl e
         | Inr codes \<Rightarrow> Inr (CodeList codes))
      else if versionCodeFilterType = Some ''expression'' then
        (case replaceExpression of
           None \<Rightarrow> Inl (InputRequired ''replaceExpression'')
         | Some e \<Rightarrow> Inr (Expression e))
      else Inr Null)"

section \<open>Updating the track\<close>

text \<open>The three callbacks of \<^verbatim>\<open>updateTrack\<close>; the state is \<^verbatim>\<open>newTrackVersionCodes\<close>.\<close>

definition keep_unless_match :: "runtime \<Rightarrow> regexp \<Rightarrow> int \<Rightarrow> int list \<Rightarrow> error + int list" where
  \<comment> \<open>lines 251--255\<close>
  "keep_unless_match js versionCodesToRemove versionCode newTrackVersionCodes =
     (if \<not> versionCodesToRemove (js_toString js versionCode)
      then Inr (push newTrackVersionCodes versionCode)
      else Inr newTrackVersionCodes)"

definition keep_unless_listed :: "number list option \<Rightarrow> int \<Rightarrow> int list \<Rightarrow> error + int list" where
  \<comment> \<open>lines 260--264; \<open>None\<close> is \<^verbatim>\<open>null\<close>, on which \<^verbatim>\<open>indexOf\<close> cannot be called\<close>
  "keep_unless_listed versionCodesToRemove versionCode newTrackVersionCodes =
     (case versionCodesToRemove of
        None \<Rightarrow> Inl TypeError
      | Some codes \<Rightarrow>
          if indexOf codes (Finite versionCode) = -1
          then Inr (push newTrackVersionCodes versionCode)
          else Inr newTrackVersionCodes)"

definition add_if_absent :: "int \<Rightarrow> int list \<Rightarrow> error + int list" where
  \<comment> \<open>lines 268--272\<close>
  "add_if_absent versionCode newTrackVersionCodes =
     (if indexOf newTrackVersionCodes versionCode = -1
      then Inr (push newTrackVersionCodes versionCode)
      else Inr newTrackVersionCodes)"

text \<open>
  Lines 244--272: from the fetched track to \<^verbatim>\<open>newTrackVersionCodes\<close>.
  \<^verbatim>\<open>res.releases[0]\<close> is \<^verbatim>\<open>undefined\<close> when there is no release, and reading
  \<^verbatim>\<open>versionCodes\<close> of it throws.
\<close>

definition keptVersionCodes ::
  "runtime \<Rightarrow> int list \<Rightarrow> VersionCodeFilter \<Rightarrow> error + int list" where
  \<comment> \<open>lines 247--265\<close>
  "keptVersionCodes js oldTrackVersionCodes versionCodeFilter =
     (case versionCodeFilter of
        Expression e \<Rightarrow>
          (case js_RegExp js (''^'' @ e @ ''$'') of
             None \<Rightarrow> Inl SyntaxError
           | Some versionCodesToRemove \<Rightarrow>
               forEach oldTrackVersionCodes (keep_unless_match js versionCodesToRemove) [])
      | CodeList codes \<Rightarrow> forEach oldTrackVersionCodes (keep_unless_listed (Some codes)) []
      | Null \<Rightarrow> forEach oldTrackVersionCodes (keep_unless_listed None) [])"

definition mergeVersionCodes ::
  "runtime \<Rightarrow> Track \<Rightarrow> int list \<Rightarrow> VersionCodeFilter \<Rightarrow> error + int list" where
  "mergeVersionCodes js res apkVersionCodes versionCodeFilter =
     (case releases res of
        [] \<Rightarrow> Inl TypeError
      | release # _ \<Rightarrow>
          (case keptVersionCodes js (versionCodes release) versionCodeFilter of
             Inl err \<Rightarrow> Inl err
           | Inr kept \<Rightarrow> forEach apkVersionCodes add_if_absent kept))"

text \<open>
  Lines 230--273: \<^verbatim>\<open>newTrackVersionCodes\<close> as \<^verbatim>\<open>updateTrack\<close> computes it, with the
  calls made to \<^verbatim>\<open>googleutil\<close> on the way.
\<close>

definition newTrackVersionCodes ::
  "runtime \<Rightarrow> googleutil \<Rightarrow> string \<Rightarrow> string \<Rightarrow> int list \<Rightarrow> string option
     \<Rightarrow> VersionCodeFilter \<Rightarrow> call list \<times> (error + int list)" where
  "newTrackVersionCodes js edits packageName track apkVersionCodes versionCodeListType
       versionCodeFilter =
     (if versionCodeListType = Some ''all'' then ([], Inr apkVersionCodes)
      else
        (case gu_getTrack edits packageName track of
           Inl e \<Rightarrow> ([GetTrack packageName track], Inl (CannotDownloadTrack track e))
         | Inr res \<Rightarrow>
             ([GetTrack packageName track],
              mergeVersionCodes js res apkVersionCodes versionCodeFilter)))"

text \<open>\<^verbatim>\<open>updateTrack\<close> (lines 219--284).\<close>

definition updateTrack ::
  "runtime \<Rightarrow> googleutil \<Rightarrow> string \<Rightarrow> string \<Rightarrow> int list \<Rightarrow> string option
     \<Rightarrow> VersionCodeFilter \<Rightarrow> ReleaseOptions \<Rightarrow> call list \<times> (error + Track)" where
  "updateTrack js edits packageName track apkVersionCodes versionCodeListType versionCodeFilter
       opts =
     (case newTrackVersionCodes js edits packageName track apkVersionCodes versionCodeListType
             versionCodeFilter of
        (calls, Inl err) \<Rightarrow> (calls, Inl err)
      | (calls, Inr codes) \<Rightarrow>
          (calls @ [UpdateTrack packageName track codes opts],
           case gu_updateTrack edits packageName track codes opts of
             Inl e \<Rightarrow> Inl (CannotUpdateTrack track e)
           | Inr res \<Rightarrow> Inr res))"

section \<open>The built-ins on the part of their domain that is modelled\<close>

text \<open>
  What follows computes the answers of the three built-ins where these are simple to
  state, and says so where it does not: \<^verbatim>\<open>toString\<close> and \<^verbatim>\<open>parseInt\<close> on integers
  below \<open>2^53\<close> in absolute value, which a double holds exactly, and \<^verbatim>\<open>RegExp\<close> on a
  fragment of the pattern language.
\<close>

subsection \<open>Decimal digits\<close>

definition digit_char :: "nat \<Rightarrow> char" where
  "digit_char d = char_of (48 + d)"

fun nat_digits :: "nat \<Rightarrow> string" where
  "nat_digits n = (if n < 10 then [digit_char n] else nat_digits (n div 10) @ [digit_char (n mod 10)])"

declare nat_digits.simps [simp del]

text \<open>The decimal digits of an integer, after a minus sign for a negative one.\<close>

definition decimal :: "int \<Rightarrow> string" where
  "decimal v = (if v < 0 then CHR ''-'' # nat_digits (nat (- v)) else nat_digits (nat v))"

definition is_digit :: "char \<Rightarrow> bool" where
  "is_digit c \<longleftrightarrow> 48 \<le> (of_char c :: nat) \<and> (of_char c :: nat) \<le> 57"

definition digit_val :: "char \<Rightarrow> int" where
  "digit_val c = of_char c - 48"

definition digits_value :: "string \<Rightarrow> int" where
  "digits_value ds = foldl (\<lambda>a c. 10 * a + digit_val c) 0 ds"

text \<open>
  \<^verbatim>\<open>parseInt(str, 10)\<close>: leading white space is skipped, then an optional sign, then the
  longest run of decimal digits is read and whatever follows is ignored. Without a digit
  the result is \<^verbatim>\<open>NaN\<close>. A run whose value is below \<open>2^53\<close> gives that value; for a
  longer one, which the language rounds to a double or to an infinity, the answer is
  left to the argument \<open>beyond\<close>.
\<close>

definition parseInt_below_2_53 :: "(string \<Rightarrow> number) \<Rightarrow> string \<Rightarrow> number" where
  "parseInt_below_2_53 beyond str =
     (let s = dropWhile is_space str;
          neg = (case s of [] \<Rightarrow> False | c # _ \<Rightarrow> c = CHR ''-'');
          s' = (case s of [] \<Rightarrow> [] | c # cs \<Rightarrow> if c = CHR ''-'' \<or> c = CHR ''+'' then cs else s);
          ds = takeWhile is_digit s'
      in if ds = [] then NaN
         else if digits_value ds < 2 ^ 53
         then Finite (if neg then - digits_value ds else digits_value ds)
         else beyond str)"

text \<open>
  \<^verbatim>\<open>toString()\<close> of an integer below \<open>2^53\<close> in absolute value is its decimal digits;
  for a larger one, which the language may print rounded or in exponent form, the answer
  is left to the argument \<open>beyond\<close>.
\<close>

definition toString_below_2_53 :: "(int \<Rightarrow> string) \<Rightarrow> int \<Rightarrow> string" where
  "toString_below_2_53 beyond v = (if \<bar>v\<bar> < 2 ^ 53 then decimal v else beyond v)"

subsection \<open>A fragment of the regular expressions\<close>

text \<open>
  The fragment: pattern characters, \<^verbatim>\<open>.\<close>, \<^verbatim>\<open>\d\<close>, an escaped syntax character, the
  assertions \<^verbatim>\<open>^\<close> and \<^verbatim>\<open>$\<close>, \<^verbatim>\<open>|\<close>, capturing groups, and the greedy quantifiers
  \<^verbatim>\<open>*\<close>, \<^verbatim>\<open>+\<close>, \<^verbatim>\<open>?\<close>. A source text is parsed, or found invalid (the constructor
  throws), or found to use syntax outside the fragment: character classes, braces, other
  escapes, \<^verbatim>\<open>(?\<close> groups and lazy quantifiers.
\<close>

datatype 'a parsed = Parsed 'a | Invalid | Unsupported

datatype regex =
    Empty
  | Chr char
  | Dot
  | Digit
  | AssertStart
  | AssertEnd
  | Seq regex regex
  | Alt regex regex
  | Group regex
  | Star regex
  | Plus regex
  | Opt regex

datatype token =
  TChar char | TDot | TDigit | TCaret | TDollar | TBar | TOpen | TClose | TStar | TPlus | TQuest

definition syntax_character :: "char \<Rightarrow> bool" where
  "syntax_character c \<longleftrightarrow> c \<in> set ''^$.*+?()[]{}|'' \<or> c = CHR 0x5C"

definition escape :: "char \<Rightarrow> token parsed" where
  "escape d = (if d = CHR ''d'' then Parsed TDigit
               else if syntax_character d \<or> d = CHR ''/'' then Parsed (TChar d)
               else Unsupported)"

definition single :: "char \<Rightarrow> token parsed" where
  "single c =
     (if c = CHR ''^'' then Parsed TCaret else if c = CHR ''$'' then Parsed TDollar
      else if c = CHR ''.'' then Parsed TDot else if c = CHR ''|'' then Parsed TBar
      else if c = CHR ''('' then Parsed TOpen else if c = CHR '')'' then Parsed TClose
      else if c = CHR ''*'' then Parsed TStar else if c = CHR ''+'' then Parsed TPlus
      else if c = CHR ''?'' then Parsed TQuest
      else if c \<in> set ''[]{}'' then Unsupported
      else Parsed (TChar c))"

fun cons_token :: "token parsed \<Rightarrow> token list parsed \<Rightarrow> token list parsed" where
  "cons_token Invalid ts = Invalid"
| "cons_token Unsupported ts = Unsupported"
| "cons_token (Parsed x) Invalid = Invalid"
| "cons_token (Parsed x) Unsupported = Unsupported"
| "cons_token (Parsed x) (Parsed xs) = Parsed (x # xs)"

fun tokenize :: "string \<Rightarrow> token list parsed" where
  "tokenize [] = Parsed []"
| "tokenize [c] = (if c = CHR 0x5C then Invalid else cons_token (single c) (Parsed []))"
| "tokenize (c # d # cs) =
     (if c = CHR 0x5C then cons_token (escape d) (tokenize cs)
      else cons_token (single c) (tokenize (d # cs)))"

text \<open>
  The parser reads the tokens from left to right. The frame in hand holds the finished
  alternatives and the terms of the current alternative of the innermost open group, both
  latest first; the stack holds the frames of the enclosing groups.
\<close>

type_synonym frame = "regex list \<times> regex list"

fun alternative :: "regex list \<Rightarrow> regex" where
  "alternative [] = Empty"
| "alternative (t # ts) = Seq t (alternative ts)"

fun disjunction :: "regex list \<Rightarrow> regex" where
  "disjunction [] = Empty"
| "disjunction [a] = a"
| "disjunction (a # b # bs) = Alt a (disjunction (b # bs))"

definition close_frame :: "frame \<Rightarrow> regex" where
  "close_frame f = disjunction (rev (alternative (rev (snd f)) # fst f))"

fun quantifiable :: "regex \<Rightarrow> bool" where
  "quantifiable (Chr c) = True"
| "quantifiable Dot = True"
| "quantifiable Digit = True"
| "quantifiable (Group r) = True"
| "quantifiable r = False"

fun quantified :: "regex \<Rightarrow> bool" where
  "quantified (Star r) = True"
| "quantified (Plus r) = True"
| "quantified (Opt r) = True"
| "quantified r = False"

fun parse :: "token list \<Rightarrow> frame \<Rightarrow> frame list \<Rightarrow> regex parsed" where
  "parse [] f stack = (if stack = [] then Parsed (close_frame f) else Invalid)"
| "parse (TChar c # rest) (as, ts) stack = parse rest (as, Chr c # ts) stack"
| "parse (TDot # rest) (as, ts) stack = parse rest (as, Dot # ts) stack"
| "parse (TDigit # rest) (as, ts) stack = parse rest (as, Digit # ts) stack"
| "parse (TCaret # rest) (as, ts) stack = parse rest (as, AssertStart # ts) stack"
| "parse (TDollar # rest) (as, ts) stack = parse rest (as, AssertEnd # ts) stack"
| "parse (TBar # rest) (as, ts) stack = parse rest (alternative (rev ts) # as, []) stack"
| "parse (TOpen # rest) f stack = parse rest ([], []) (f # stack)"
| "parse (TClose # rest) f stack =
     (case stack of
        [] \<Rightarrow> Invalid
      | (as', ts') # stack' \<Rightarrow> parse rest (as', Group (close_frame f) # ts') stack')"
| "parse (TStar # rest) (as, ts) stack =
     (case ts of
        [] \<Rightarrow> Invalid
      | u # us \<Rightarrow> if quantifiable u then parse rest (as, Star u # us) stack else Invalid)"
| "parse (TPlus # rest) (as, ts) stack =
     (case ts of
        [] \<Rightarrow> Invalid
      | u # us \<Rightarrow> if quantifiable u then parse rest (as, Plus u # us) stack else Invalid)"
| "parse (TQuest # rest) (as, ts) stack =
     (case ts of
        [] \<Rightarrow> if as = [] \<and> stack \<noteq> [] then Unsupported else Invalid
      | u # us \<Rightarrow>
          if quantifiable u then parse rest (as, Opt u # us) stack
          else if quantified u then Unsupported
          else Invalid)"

text \<open>The source text of an expression without flags, parsed.\<close>

definition parse_source :: "string \<Rightarrow> regex parsed" where
  "parse_source source =
     (case tokenize source of
        Parsed toks \<Rightarrow> parse toks ([], []) []
      | Invalid \<Rightarrow> Invalid
      | Unsupported \<Rightarrow> Unsupported)"

text \<open>
  \<open>ends r s i\<close> lists the positions where a match of \<open>r\<close> that starts at position \<open>i\<close> of
  \<open>s\<close> can end. A repetition gives up an iteration that consumes nothing, as the
  language's repeat matcher does.
\<close>

definition line_terminator :: "char \<Rightarrow> bool" where
  "line_terminator c \<longleftrightarrow> c = CHR 0x0A \<or> c = CHR 0x0D"

fun weight :: "regex \<Rightarrow> nat" where
  "weight (Seq a b) = Suc (weight a + weight b)"
| "weight (Alt a b) = Suc (weight a + weight b)"
| "weight (Group r) = Suc (weight r)"
| "weight (Star r) = Suc (weight r)"
| "weight (Plus r) = Suc (Suc (weight r))"
| "weight (Opt r) = Suc (weight r)"
| "weight r = 0"

function ends :: "regex \<Rightarrow> string \<Rightarrow> nat \<Rightarrow> nat list" where
  "ends Empty s i = [i]"
| "ends (Chr c) s i = (if i < length s \<and> s ! i = c then [Suc i] else [])"
| "ends Dot s i = (if i < length s \<and> \<not> line_terminator (s ! i) then [Suc i] else [])"
| "ends Digit s i = (if i < length s \<and> is_digit (s ! i) then [Suc i] else [])"
| "ends AssertStart s i = (if i = 0 then [i] else [])"
| "ends AssertEnd s i = (if i = length s then [i] else [])"
| "ends (Seq a b) s i = concat (map (ends b s) (ends a s i))"
| "ends (Alt a b) s i = ends a s i @ ends b s i"
| "ends (Group r) s i = ends r s i"
| "ends (Star r) s i =
     concat (map (\<lambda>j. if i < j \<and> j \<le> length s then ends (Star r) s j else []) (ends r s i)) @ [i]"
| "ends (Plus r) s i = concat (map (ends (Star r) s) (ends r s i))"
| "ends (Opt r) s i = filter (\<lambda>j. j \<noteq> i) (ends r s i) @ [i]"
  by pat_completeness auto
termination
  by (relation "inv_image (less_than <*lex*> less_than) (\<lambda>(r, s, i). (weight r, length s - i))")
     auto

text \<open>
  Whether \<^verbatim>\<open>str.match(re)\<close> is an array rather than \<^verbatim>\<open>null\<close>: a match is looked for
  from each position of the string in turn.
\<close>

definition String_match :: "string \<Rightarrow> regex \<Rightarrow> bool" where
  "String_match s re \<longleftrightarrow> list_ex (\<lambda>i. ends re s i \<noteq> []) [0..<Suc (length s)]"

text \<open>
  \<^verbatim>\<open>new RegExp(source)\<close> on the fragment; for a source outside of it the answer is left
  to the argument \<open>beyond\<close>.
\<close>

definition RegExp_on_fragment :: "(string \<Rightarrow> regexp option) \<Rightarrow> string \<Rightarrow> regexp option" where
  "RegExp_on_fragment beyond source =
     (case parse_source source of
        Parsed re \<Rightarrow> Some (\<lambda>s. String_match s re)
      | Invalid \<Rightarrow> None
      | Unsupported \<Rightarrow> beyond source)"

subsection \<open>Runtimes that agree with the model\<close>

text \<open>
  \<open>modelled js\<close> answers as computed above where that is defined and as \<open>js\<close> elsewhere:
  the runtimes of this form are those that agree with the model.
\<close>

definition modelled :: "runtime \<Rightarrow> runtime" where
  "modelled js =
     \<lparr>js_RegExp = RegExp_on_fragment (js_RegExp js),
      js_toString = toString_below_2_53 (js_toString js),
      js_parseInt = parseInt_below_2_53 (js_parseInt js)\<rparr>"

text \<open>
  One such runtime, for the worked examples. These apply \<^verbatim>\<open>RegExp\<close> to sources of the
  fragment, \<^verbatim>\<open>toString\<close> to integers below \<open>2^53\<close> and \<^verbatim>\<open>parseInt\<close> to short runs of
  digits only, where its answers are those of the model; what it answers elsewhere is a
  placeholder that no statement relies on.
\<close>

definition sample_runtime :: runtime where
  "sample_runtime =
     modelled \<lparr>js_RegExp = (\<lambda>source. None), js_toString = (\<lambda>v. []), js_parseInt = (\<lambda>str. NaN)\<rparr>"

section \<open>Reference notions and sample platforms\<close>

text \<open>
  A string fully matches a pattern of the fragment when a match of the pattern alone that
  starts at the first character ends after the last one.
\<close>

definition fully_matches :: "string \<Rightarrow> string \<Rightarrow> bool option" where
  "fully_matches pattern s =
     (case parse_source pattern of
        Parsed r \<Rightarrow> Some (length s \<in> set (ends r s 0))
      | Invalid \<Rightarrow> None
      | Unsupported \<Rightarrow> None)"

text \<open>
  In-memory platforms: one whose track holds a single release with the given version
  codes, one whose track holds no release, and one whose track cannot be fetched.
\<close>

definition play_with :: "int list \<Rightarrow> googleutil" where
  "play_with old =
     \<lparr>gu_getTrack = (\<lambda>packageName track. Inr \<lparr>releases = [\<lparr>versionCodes = old\<rparr>]\<rparr>),
      gu_updateTrack = (\<lambda>packageName track codes opts. Inr \<lparr>releases = [\<lparr>versionCodes = codes\<rparr>]\<rparr>)\<rparr>"

definition play_without_release :: googleutil where
  "play_without_release =
     \<lparr>gu_getTrack = (\<lambda>packageName track. Inr \<lparr>releases = []\<rparr>),
      gu_updateTrack = (\<lambda>packageName track codes opts. Inr \<lparr>releases = [\<lparr>versionCodes = codes\<rparr>]\<rparr>)\<rparr>"

definition play_unreachable :: googleutil where
  "play_unreachable =
     \<lparr>gu_getTrack = (\<lambda>packageName track. Inl ''not found''),
      gu_updateTrack = (\<lambda>packageName track codes opts. Inl ''not found'')\<rparr>"

definition full_rollout :: ReleaseOptions where
  "full_rollout = \<lparr>userFraction = 1, updatePriority = 0, releaseNotes = None\<rparr>"

section \<open>The loops in closed form\<close>

lemma indexOf_from_absent: "0 \<le> i \<Longrightarrow> indexOf_from xs x i = -1 \<longleftrightarrow> x \<notin> set xs"
  by (induction xs arbitrary: i) auto

lemma indexOf_absent: "indexOf xs x = -1 \<longleftrightarrow> x \<notin> set xs"
  by (simp add: indexOf_def indexOf_from_absent)

lemma forEach_keep_unless_listed:
  "forEach old (keep_unless_listed (Some codes)) acc
     = Inr (acc @ [c\<leftarrow>old. Finite c \<notin> set codes])"
  by (induction old arbitrary: acc) (simp_all add: keep_unless_listed_def indexOf_absent push_def)

lemma forEach_keep_unless_listed_null:
  "forEach old (keep_unless_listed None) acc = (if old = [] then Inr acc else Inl TypeError)"
  by (cases old) (simp_all add: keep_unless_listed_def)

lemma forEach_keep_unless_match:
  "forEach old (keep_unless_match js re) acc = Inr (acc @ [c\<leftarrow>old. \<not> re (js_toString js c)])"
  by (induction old arbitrary: acc) (simp_all add: keep_unless_match_def push_def)

lemma remdups_snoc: "remdups (zs @ [x]) = remdups [y\<leftarrow>zs. y \<noteq> x] @ [x]"
  by (induction zs) auto

lemma first_occurrences_Cons:
  "rev (remdups (rev (x # ys))) = x # rev (remdups (rev [y\<leftarrow>ys. y \<noteq> x]))"
  by (simp add: remdups_snoc rev_filter)

lemma add_if_absent_eq:
  "add_if_absent x acc = Inr (if x \<in> set acc then acc else acc @ [x])"
  by (simp add: add_if_absent_def indexOf_absent push_def)

lemma forEach_add_if_absent:
  "forEach new add_if_absent acc = Inr (acc @ rev (remdups (rev [c\<leftarrow>new. c \<notin> set acc])))"
proof (induction new arbitrary: acc)
  case Nil
  show ?case by simp
next
  case (Cons x xs)
  let ?acc' = "if x \<in> set acc then acc else acc @ [x]"
  have "forEach (x # xs) add_if_absent acc = forEach xs add_if_absent ?acc'"
    by (simp add: add_if_absent_eq)
  also have "\<dots> = Inr (?acc' @ rev (remdups (rev [c\<leftarrow>xs. c \<notin> set ?acc'])))"
    by (rule Cons.IH)
  also have "?acc' @ rev (remdups (rev [c\<leftarrow>xs. c \<notin> set ?acc']))
           = acc @ rev (remdups (rev [c\<leftarrow>x # xs. c \<notin> set acc]))"
  proof (cases "x \<in> set acc")
    case True
    then show ?thesis by simp
  next
    case False
    have "[c\<leftarrow>xs. c \<notin> set (acc @ [x])] = [y\<leftarrow>[c\<leftarrow>xs. c \<notin> set acc]. y \<noteq> x]"
      by (induction xs) auto
    with False show ?thesis
      by (simp add: first_occurrences_Cons del: remdups.simps rev.simps)
  qed
  finally show ?case .
qed

lemma keptVersionCodes_CodeList:
  "keptVersionCodes js old (CodeList codes) = Inr [c\<leftarrow>old. Finite c \<notin> set codes]"
  by (simp add: keptVersionCodes_def forEach_keep_unless_listed)

lemma keptVersionCodes_Null:
  "keptVersionCodes js old Null = (if old = [] then Inr [] else Inl TypeError)"
  by (simp add: keptVersionCodes_def forEach_keep_unless_listed_null)

lemma keptVersionCodes_Expression:
  "keptVersionCodes js old (Expression e) =
     (case js_RegExp js (''^'' @ e @ ''$'') of
        None \<Rightarrow> Inl SyntaxError
      | Some re \<Rightarrow> Inr [c\<leftarrow>old. \<not> re (js_toString js c)])"
  by (simp add: keptVersionCodes_def forEach_keep_unless_match split: option.splits)

lemma keptVersionCodes_error:
  "keptVersionCodes js old flt = Inl err \<Longrightarrow> err = TypeError \<or> err = SyntaxError"
  by (cases flt)
     (auto simp: keptVersionCodes_CodeList keptVersionCodes_Null keptVersionCodes_Expression
        split: if_splits option.splits)

lemma keptVersionCodes_filter:
  "keptVersionCodes js old flt = Inr kept \<Longrightarrow> kept = [c\<leftarrow>old. c \<in> set kept]"
proof (cases flt)
  case Null
  assume "keptVersionCodes js old flt = Inr kept"
  with Null show ?thesis by (simp add: keptVersionCodes_Null split: if_splits)
next
  case (Expression e)
  assume "keptVersionCodes js old flt = Inr kept"
  with Expression obtain re where "kept = [c\<leftarrow>old. \<not> re (js_toString js c)]"
    by (auto simp: keptVersionCodes_Expression split: option.splits)
  then show ?thesis by (simp cong: filter_cong)
next
  case (CodeList codes)
  assume "keptVersionCodes js old flt = Inr kept"
  with CodeList have "kept = [c\<leftarrow>old. Finite c \<notin> set codes]"
    by (simp add: keptVersionCodes_CodeList)
  then show ?thesis by (simp cong: filter_cong)
qed

lemma mergeVersionCodes_release:
  "releases res = release # rest \<Longrightarrow>
   mergeVersionCodes js res apk flt =
     (case keptVersionCodes js (versionCodes release) flt of
        Inl err \<Rightarrow> Inl err
      | Inr kept \<Rightarrow> Inr (kept @ rev (remdups (rev [c\<leftarrow>apk. c \<notin> set kept]))))"
  by (simp add: mergeVersionCodes_def forEach_add_if_absent split: sum.splits)

lemma mergeVersionCodes_Inr:
  "mergeVersionCodes js res apk flt = Inr codes \<longleftrightarrow>
     (\<exists>r rs kept. releases res = r # rs \<and> keptVersionCodes js (versionCodes r) flt = Inr kept \<and>
        codes = kept @ rev (remdups (rev [c\<leftarrow>apk. c \<notin> set kept])))"
  by (auto simp: mergeVersionCodes_def forEach_add_if_absent split: list.splits sum.splits)

lemma mergeVersionCodes_error:
  "mergeVersionCodes js res apk flt = Inl err \<Longrightarrow> err = TypeError \<or> err = SyntaxError"
  by (auto simp: mergeVersionCodes_def forEach_add_if_absent split: list.splits sum.splits
        dest: keptVersionCodes_error)

lemma newTrackVersionCodes_fetched:
  "versionCodeListType \<noteq> Some ''all'' \<Longrightarrow> gu_getTrack edits pkg track = Inr res \<Longrightarrow>
   newTrackVersionCodes js edits pkg track apk versionCodeListType flt
     = ([GetTrack pkg track], mergeVersionCodes js res apk flt)"
  by (simp add: newTrackVersionCodes_def)

lemma newTrackVersionCodes_Inr:
  "newTrackVersionCodes js edits pkg track apk ty flt = (calls, Inr codes) \<longleftrightarrow>
     (if ty = Some ''all'' then calls = [] \<and> codes = apk
      else calls = [GetTrack pkg track] \<and>
        (\<exists>res. gu_getTrack edits pkg track = Inr res \<and> mergeVersionCodes js res apk flt = Inr codes))"
  by (auto simp: newTrackVersionCodes_def split: sum.splits)

lemma first_occurrences_distinct:
  "distinct xs \<Longrightarrow> rev (remdups (rev xs)) = xs"
  by (simp add: distinct_remdups_id)

section \<open>Runtimes that agree with the model, evaluated\<close>

lemma modelled_RegExp:
  "parse_source source = Parsed re \<Longrightarrow>
   js_RegExp (modelled js) source = Some (\<lambda>s. String_match s re)"
  by (simp add: modelled_def RegExp_on_fragment_def)

lemma modelled_toString: "\<bar>v\<bar> < 2 ^ 53 \<Longrightarrow> js_toString (modelled js) v = decimal v"
  by (simp add: modelled_def toString_below_2_53_def)

lemma modelled_parseInt:
  "parseInt_below_2_53 (\<lambda>str. NaN) str = Finite n \<Longrightarrow> js_parseInt (modelled js) str = Finite n"
  by (auto simp: modelled_def parseInt_below_2_53_def Let_def split: if_splits)

lemma modelled_parseInt_NaN:
  "takeWhile is_digit
     (case dropWhile is_space str of [] \<Rightarrow> []
      | c # cs \<Rightarrow> if c = CHR ''-'' \<or> c = CHR ''+'' then cs else dropWhile is_space str) = [] \<Longrightarrow>
   js_parseInt (modelled js) str = NaN"
  by (simp add: modelled_def parseInt_below_2_53_def Let_def)

text \<open>
  An expression that consists of decimal digits only compiles to the sequence of its
  characters between the two assertions, which matches the string equal to it and no
  other: with a runtime that agrees with the model, the filter then removes, among
  version codes below \<open>2^53\<close>, exactly the one with that decimal string.
\<close>

lemma digit_is_plain:
  assumes "is_digit c"
  shows "c \<notin> set ''^$.|()*+?[]{}''" and "c \<noteq> CHR 0x5C"
  using assms by (auto simp: is_digit_def)

lemma single_digit: "is_digit c \<Longrightarrow> single c = Parsed (TChar c)"
  using digit_is_plain(1) [of c] by (simp add: single_def)

lemma tokenize_digits_then:
  "\<forall>c\<in>set p. is_digit c \<Longrightarrow> tokenize (p @ ''$'') = Parsed (map TChar p @ [TDollar])"
proof (induction p)
  case Nil
  show ?case by (simp add: single_def)
next
  case (Cons c p)
  then have c: "single c = Parsed (TChar c)" "c \<noteq> CHR 0x5C"
    by (simp_all add: single_digit digit_is_plain(2))
  from Cons have IH: "tokenize (p @ ''$'') = Parsed (map TChar p @ [TDollar])" by simp
  obtain d ds where "p @ ''$'' = d # ds" by (cases "p @ ''$''") auto
  with c IH show ?case by simp
qed

lemma tokenize_anchored_digits:
  assumes "\<forall>c\<in>set p. is_digit c"
  shows "tokenize (CHR ''^'' # p @ ''$'') = Parsed (TCaret # map TChar p @ [TDollar])"
proof -
  obtain d ds where "p @ ''$'' = d # ds" by (cases "p @ ''$''") auto
  with tokenize_digits_then [OF assms] show ?thesis
    by (simp add: single_def)
qed

lemma parse_chars:
  "parse (map TChar p @ rest) (as, ts) stack = parse rest (as, rev (map Chr p) @ ts) stack"
  by (induction p arbitrary: ts) simp_all

lemma parse_source_anchored_digits:
  assumes "\<forall>c\<in>set p. is_digit c"
  shows "parse_source (''^'' @ p @ ''$'')
     = Parsed (alternative (AssertStart # map Chr p @ [AssertEnd]))"
  by (simp add: parse_source_def tokenize_anchored_digits [OF assms] parse_chars close_frame_def)

lemma ends_chars:
  "ends (alternative (map Chr p @ [AssertEnd])) s i =
     (if i \<le> length s \<and> drop i s = p then [length s] else [])"
proof (induction p arbitrary: i)
  case Nil
  show ?case by auto
next
  case (Cons c p)
  show ?case
  proof (cases "i < length s \<and> s ! i = c")
    case True
    then have "drop i s = c # drop (Suc i) s" by (simp add: Cons_nth_drop_Suc [symmetric])
    with True show ?thesis by (simp add: Cons.IH Suc_le_eq)
  next
    case False
    have "drop i s \<noteq> c # p"
    proof
      assume eq: "drop i s = c # p"
      then have "i < length s" by (cases "i < length s") auto
      moreover from this eq have "s ! i = c" by (simp add: Cons_nth_drop_Suc [symmetric])
      ultimately show False using False by simp
    qed
    with False show ?thesis by auto
  qed
qed

lemma String_match_anchored_digits:
  "String_match s (alternative (AssertStart # map Chr p @ [AssertEnd])) \<longleftrightarrow> s = p"
proof -
  have "ends (alternative (AssertStart # map Chr p @ [AssertEnd])) s i
      = (if i = 0 \<and> s = p then [length s] else [])" for i
    by (simp add: ends_chars)
  then show ?thesis
    by (auto simp: String_match_def list_ex_iff simp del: upt_Suc)
qed

lemma keptVersionCodes_digits:
  assumes "\<forall>c\<in>set p. is_digit c" and "\<forall>c\<in>set old. \<bar>c\<bar> < 2 ^ 53"
  shows "keptVersionCodes (modelled js) old (Expression p) = Inr [c\<leftarrow>old. decimal c \<noteq> p]"
proof -
  have "js_RegExp (modelled js) (''^'' @ p @ ''$'')
      = Some (\<lambda>s. String_match s (alternative (AssertStart # map Chr p @ [AssertEnd])))"
    using assms(1) by (intro modelled_RegExp parse_source_anchored_digits)
  moreover have "[c\<leftarrow>old. js_toString (modelled js) c \<noteq> p] = [c\<leftarrow>old. decimal c \<noteq> p]"
    using assms(2) by (intro filter_cong refl) (simp add: modelled_toString)
  ultimately show ?thesis
    by (simp only: keptVersionCodes_Expression option.case String_match_anchored_digits)
qed

lemma distinct_merge:
  "distinct kept \<Longrightarrow> distinct (kept @ rev (remdups (rev [c\<leftarrow>apk. c \<notin> set kept])))"
  by auto

lemma newTrackVersionCodes_CodeList:
  assumes "versionCodeListType \<noteq> Some ''all''" and "gu_getTrack edits pkg track = Inr res"
    and "releases res = release # rest"
  shows "newTrackVersionCodes js edits pkg track apk versionCodeListType (CodeList excluded)
     = ([GetTrack pkg track],
        Inr ([c\<leftarrow>versionCodes release. Finite c \<notin> set excluded]
             @ rev (remdups (rev [c\<leftarrow>apk.
                  c \<notin> set [c\<leftarrow>versionCodes release. Finite c \<notin> set excluded]]))))"
  using assms
  by (simp add: newTrackVersionCodes_fetched mergeVersionCodes_release keptVersionCodes_CodeList)

lemma newTrackVersionCodes_Expression:
  assumes "versionCodeListType \<noteq> Some ''all''" and "gu_getTrack edits pkg track = Inr res"
    and "releases res = release # rest" and "js_RegExp js (''^'' @ e @ ''$'') = Some re"
  shows "newTrackVersionCodes js edits pkg track apk versionCodeListType (Expression e)
     = ([GetTrack pkg track],
        Inr ([c\<leftarrow>versionCodes release. \<not> re (js_toString js c)]
             @ rev (remdups (rev [c\<leftarrow>apk.
                  c \<notin> set [c\<leftarrow>versionCodes release. \<not> re (js_toString js c)]]))))"
  using assms
  by (simp add: newTrackVersionCodes_fetched mergeVersionCodes_release keptVersionCodes_Expression)

section \<open>Properties of the reconciliation\<close>

text \<open>
  C1, as the claim states it, fails: with the filter type \<^verbatim>\<open>'all'\<close> two uploads that
  carry the same version code are both listed, and with a list filter a version code
  that the fetched release lists twice and the filter keeps is listed twice.
\<close>

theorem C1_duplicates_counterexample:
  "newTrackVersionCodes sample_runtime (play_with [1, 2, 3]) ''com.example'' ''beta'' [4, 4]
     (Some ''all'') Null = ([], Inr [4, 4])
   \<and> \<not> distinct [4, 4 :: int]
   \<and> newTrackVersionCodes sample_runtime (play_with [1, 1]) ''com.example'' ''beta'' [4]
     (Some ''list'') (CodeList [Finite 2]) = ([GetTrack ''com.example'' ''beta''], Inr [1, 1, 4])
   \<and> \<not> distinct [1, 1, 4 :: int]"
  by (simp add: newTrackVersionCodes_def play_with_def mergeVersionCodes_def
        keptVersionCodes_def keep_unless_listed_def add_if_absent_def indexOf_def push_def)

text \<open>
  C1, amended. For every runtime: the new version codes of the track contain no version
  code twice when, for the filter type \<^verbatim>\<open>'all'\<close>, the uploaded version codes contain
  none twice and, for any other filter type, the first release of the fetched track lists
  none twice. Under these conditions the list is produced with the filter type
  \<^verbatim>\<open>'all'\<close>, with every list filter, and with every expression that compiles.
\<close>

theorem C1_no_duplicates:
  "(newTrackVersionCodes js edits packageName track apkVersionCodes versionCodeListType
        versionCodeFilter = (calls, Inr codes)
      \<and> (versionCodeListType = Some ''all'' \<longrightarrow> distinct apkVersionCodes)
      \<and> (versionCodeListType \<noteq> Some ''all'' \<longrightarrow>
           (\<forall>fetched first others. gu_getTrack edits packageName track = Inr fetched
                \<and> releases fetched = first # others \<longrightarrow> distinct (versionCodes first)))
     \<longrightarrow> distinct codes)
   \<and> (distinct apkVersionCodes \<longrightarrow>
        (\<exists>merged. newTrackVersionCodes js edits packageName track apkVersionCodes (Some ''all'')
             versionCodeFilter = ([], Inr merged) \<and> distinct merged))
   \<and> (versionCodeListType \<noteq> Some ''all'' \<and> gu_getTrack edits packageName track = Inr res
        \<and> releases res = release # rest \<and> distinct (versionCodes release)
      \<longrightarrow> (\<exists>merged. newTrackVersionCodes js edits packageName track apkVersionCodes
                 versionCodeListType (CodeList excluded)
               = ([GetTrack packageName track], Inr merged) \<and> distinct merged)
        \<and> (\<forall>re. js_RegExp js (''^'' @ e @ ''$'') = Some re \<longrightarrow>
             (\<exists>merged. newTrackVersionCodes js edits packageName track apkVersionCodes
                  versionCodeListType (Expression e)
                = ([GetTrack packageName track], Inr merged) \<and> distinct merged)))"
proof -
  have conditional: "distinct codes"
    if run: "newTrackVersionCodes js edits packageName track apkVersionCodes versionCodeListType
        versionCodeFilter = (calls, Inr codes)"
      and uploads: "versionCodeListType = Some ''all'' \<longrightarrow> distinct apkVersionCodes"
      and old: "versionCodeListType \<noteq> Some ''all'' \<longrightarrow>
           (\<forall>fetched first others. gu_getTrack edits packageName track = Inr fetched
                \<and> releases fetched = first # others \<longrightarrow> distinct (versionCodes first))"
  proof (cases "versionCodeListType = Some ''all''")
    case True
    with run uploads show ?thesis by (simp add: newTrackVersionCodes_Inr)
  next
    case False
    with run obtain fetched where fetched: "gu_getTrack edits packageName track = Inr fetched"
      and "mergeVersionCodes js fetched apkVersionCodes versionCodeFilter = Inr codes"
      by (auto simp: newTrackVersionCodes_Inr)
    then obtain first others kept where rel: "releases fetched = first # others"
      and kept: "keptVersionCodes js (versionCodes first) versionCodeFilter = Inr kept"
      and codes: "codes = kept @ rev (remdups (rev [c\<leftarrow>apkVersionCodes. c \<notin> set kept]))"
      by (auto simp: mergeVersionCodes_Inr)
    have "distinct (versionCodes first)" using False old fetched rel by blast
    moreover have "kept = [c\<leftarrow>versionCodes first. c \<in> set kept]"
      using kept by (rule keptVersionCodes_filter)
    ultimately have "distinct kept" by (metis distinct_filter)
    then show ?thesis unfolding codes by (rule distinct_merge)
  qed
  have all: "distinct apkVersionCodes \<longrightarrow>
      (\<exists>merged. newTrackVersionCodes js edits packageName track apkVersionCodes (Some ''all'')
           versionCodeFilter = ([], Inr merged) \<and> distinct merged)"
    by (simp add: newTrackVersionCodes_def)
  have produced: "(\<exists>merged. newTrackVersionCodes js edits packageName track apkVersionCodes
                 versionCodeListType (CodeList excluded)
               = ([GetTrack packageName track], Inr merged) \<and> distinct merged)
        \<and> (\<forall>re. js_RegExp js (''^'' @ e @ ''$'') = Some re \<longrightarrow>
             (\<exists>merged. newTrackVersionCodes js edits packageName track apkVersionCodes
                  versionCodeListType (Expression e)
                = ([GetTrack packageName track], Inr merged) \<and> distinct merged))"
    if ty: "versionCodeListType \<noteq> Some ''all''"
      and fetch: "gu_getTrack edits packageName track = Inr res"
      and rel: "releases res = release # rest" and old: "distinct (versionCodes release)"
  proof
    show "\<exists>merged. newTrackVersionCodes js edits packageName track apkVersionCodes
                 versionCodeListType (CodeList excluded)
               = ([GetTrack packageName track], Inr merged) \<and> distinct merged"
    proof -
      let ?kept = "[c\<leftarrow>versionCodes release. Finite c \<notin> set excluded]"
      have "distinct (?kept @ rev (remdups (rev [c\<leftarrow>apkVersionCodes. c \<notin> set ?kept])))"
        using old by (intro distinct_merge) simp
      with newTrackVersionCodes_CodeList [OF ty fetch rel] show ?thesis by blast
    qed
    show "\<forall>re. js_RegExp js (''^'' @ e @ ''$'') = Some re \<longrightarrow>
             (\<exists>merged. newTrackVersionCodes js edits packageName track apkVersionCodes
                  versionCodeListType (Expression e)
                = ([GetTrack packageName track], Inr merged) \<and> distinct merged)"
    proof (intro allI impI)
      fix re assume re: "js_RegExp js (''^'' @ e @ ''$'') = Some re"
      show "\<exists>merged. newTrackVersionCodes js edits packageName track apkVersionCodes
                  versionCodeListType (Expression e)
                = ([GetTrack packageName track], Inr merged) \<and> distinct merged"
      proof -
        let ?kept = "[c\<leftarrow>versionCodes release. \<not> re (js_toString js c)]"
        have "distinct (?kept @ rev (remdups (rev [c\<leftarrow>apkVersionCodes. c \<notin> set ?kept])))"
          using old by (intro distinct_merge) simp
        with newTrackVersionCodes_Expression [OF ty fetch rel re] show ?thesis by blast
      qed
    qed
  qed
  from conditional all produced show ?thesis by blast
qed

theorem C1_no_duplicates_witness:
  "distinct [1, 3, 4 :: int]
   \<and> newTrackVersionCodes sample_runtime (play_with [1, 2, 3]) ''com.example'' ''beta'' [4, 3, 4]
       (Some ''list'') (CodeList [Finite 2]) = ([GetTrack ''com.example'' ''beta''], Inr [1, 3, 4])
   \<and> (\<exists>merged. newTrackVersionCodes sample_runtime (play_with [1, 2, 3]) ''com.example'' ''beta''
          [4, 5] (Some ''all'') Null = ([], Inr merged) \<and> distinct merged)
   \<and> (\<exists>merged. newTrackVersionCodes sample_runtime (play_with [10, 7, 123]) ''com.example''
          ''beta'' [7, 13, 13] (Some ''expression'') (Expression ''1.'')
        = ([GetTrack ''com.example'' ''beta''], Inr merged) \<and> distinct merged)"
proof -
  have run: "newTrackVersionCodes sample_runtime (play_with [1, 2, 3]) ''com.example'' ''beta''
      [4, 3, 4] (Some ''list'') (CodeList [Finite 2])
      = ([GetTrack ''com.example'' ''beta''], Inr [1, 3, 4])"
    by (simp add: newTrackVersionCodes_def play_with_def mergeVersionCodes_def
          keptVersionCodes_def keep_unless_listed_def add_if_absent_def indexOf_def push_def)
  have a: "distinct [1, 3, 4 :: int]"
  proof (rule C1_no_duplicates [THEN conjunct1, rule_format])
    show "newTrackVersionCodes sample_runtime (play_with [1, 2, 3]) ''com.example'' ''beta''
        [4, 3, 4] (Some ''list'') (CodeList [Finite 2])
        = ([GetTrack ''com.example'' ''beta''], Inr [1, 3, 4])
      \<and> (Some ''list'' = Some ''all'' \<longrightarrow> distinct [4, 3, 4 :: int])
      \<and> (Some ''list'' \<noteq> Some ''all'' \<longrightarrow>
           (\<forall>fetched first others.
               gu_getTrack (play_with [1, 2, 3]) ''com.example'' ''beta'' = Inr fetched
                \<and> releases fetched = first # others \<longrightarrow> distinct (versionCodes first)))"
      using run by (auto simp: play_with_def)
  qed
  have "distinct [4, 5 :: int]" by simp
  from C1_no_duplicates [THEN conjunct2, THEN conjunct1, rule_format, OF this]
  have b: "\<exists>merged. newTrackVersionCodes sample_runtime (play_with [1, 2, 3]) ''com.example''
      ''beta'' [4, 5] (Some ''all'') Null = ([], Inr merged) \<and> distinct merged" .
  have source: "parse_source ''^1.$''
      = Parsed (Seq AssertStart (Seq (Chr CHR ''1'') (Seq Dot (Seq AssertEnd Empty))))"
    by code_simp
  have re: "js_RegExp sample_runtime (''^'' @ ''1.'' @ ''$'')
      = Some (\<lambda>s. String_match s
          (Seq AssertStart (Seq (Chr CHR ''1'') (Seq Dot (Seq AssertEnd Empty)))))"
    using modelled_RegExp [OF source] by (simp add: sample_runtime_def)
  have fetched: "Some ''expression'' \<noteq> Some ''all''
      \<and> gu_getTrack (play_with [10, 7, 123]) ''com.example'' ''beta''
          = Inr \<lparr>releases = [\<lparr>versionCodes = [10, 7, 123]\<rparr>]\<rparr>
      \<and> releases \<lparr>releases = [\<lparr>versionCodes = [10, 7, 123]\<rparr>]\<rparr> = \<lparr>versionCodes = [10, 7, 123]\<rparr> # []
      \<and> distinct (versionCodes \<lparr>versionCodes = [10, 7, 123]\<rparr>)"
    by (simp add: play_with_def)
  from C1_no_duplicates [THEN conjunct2, THEN conjunct2, rule_format, OF fetched,
      THEN conjunct2, rule_format, OF re]
  have c: "\<exists>merged. newTrackVersionCodes sample_runtime (play_with [10, 7, 123]) ''com.example''
      ''beta'' [7, 13, 13] (Some ''expression'') (Expression ''1.'')
      = ([GetTrack ''com.example'' ''beta''], Inr merged) \<and> distinct merged" .
  from a run b c show ?thesis by blast
qed

text \<open>
  C2. A fetched track without any release makes the reconciliation throw: the first
  release is \<^verbatim>\<open>undefined\<close> and its version codes cannot be read. A release that lists no
  version code gives the result of scenario D.
\<close>

theorem C2_track_without_release_throws:
  "newTrackVersionCodes js play_without_release ''com.example'' ''beta'' [1] (Some ''list'')
     (CodeList [Finite 5]) = ([GetTrack ''com.example'' ''beta''], Inl TypeError)
   \<and> newTrackVersionCodes js (play_with []) ''com.example'' ''beta'' [1] (Some ''list'')
     (CodeList [Finite 5]) = ([GetTrack ''com.example'' ''beta''], Inr [1])"
  by (simp add: newTrackVersionCodes_def play_without_release_def play_with_def
        mergeVersionCodes_def keptVersionCodes_def add_if_absent_def indexOf_def push_def)

text \<open>
  C3. For every runtime, filter type, filter and track, every uploaded version code is
  among the new version codes of the track whenever these are computed; and they are
  computed with the filter type \<^verbatim>\<open>'all'\<close> and, once the track is fetched and has a
  release, with every list filter and with every expression that compiles.
\<close>

theorem C3_uploaded_codes_kept:
  "(newTrackVersionCodes js edits packageName track apkVersionCodes versionCodeListType
        versionCodeFilter = (calls, Inr codes)
     \<longrightarrow> set apkVersionCodes \<subseteq> set codes)
   \<and> (\<exists>merged. newTrackVersionCodes js edits packageName track apkVersionCodes (Some ''all'')
          versionCodeFilter = ([], Inr merged) \<and> set apkVersionCodes \<subseteq> set merged)
   \<and> (versionCodeListType \<noteq> Some ''all'' \<and> gu_getTrack edits packageName track = Inr res
        \<and> releases res = release # rest
      \<longrightarrow> (\<exists>merged. newTrackVersionCodes js edits packageName track apkVersionCodes
                 versionCodeListType (CodeList excluded)
               = ([GetTrack packageName track], Inr merged) \<and> set apkVersionCodes \<subseteq> set merged)
        \<and> (\<forall>re. js_RegExp js (''^'' @ e @ ''$'') = Some re \<longrightarrow>
             (\<exists>merged. newTrackVersionCodes js edits packageName track apkVersionCodes
                  versionCodeListType (Expression e)
                = ([GetTrack packageName track], Inr merged)
                \<and> set apkVersionCodes \<subseteq> set merged)))"
proof -
  have merged: "set apkVersionCodes
      \<subseteq> set (kept @ rev (remdups (rev [c\<leftarrow>apkVersionCodes. c \<notin> set kept])))" for kept
    by auto
  have conditional: "set apkVersionCodes \<subseteq> set codes"
    if run: "newTrackVersionCodes js edits packageName track apkVersionCodes versionCodeListType
        versionCodeFilter = (calls, Inr codes)"
  proof (cases "versionCodeListType = Some ''all''")
    case True
    with run show ?thesis by (simp add: newTrackVersionCodes_Inr)
  next
    case False
    with run obtain fetched where
      "mergeVersionCodes js fetched apkVersionCodes versionCodeFilter = Inr codes"
      by (auto simp: newTrackVersionCodes_Inr)
    then obtain kept where
      "codes = kept @ rev (remdups (rev [c\<leftarrow>apkVersionCodes. c \<notin> set kept]))"
      by (auto simp: mergeVersionCodes_Inr)
    with merged show ?thesis by simp
  qed
  have all: "\<exists>merged. newTrackVersionCodes js edits packageName track apkVersionCodes
      (Some ''all'') versionCodeFilter = ([], Inr merged) \<and> set apkVersionCodes \<subseteq> set merged"
    by (simp add: newTrackVersionCodes_def)
  have produced: "(\<exists>merged. newTrackVersionCodes js edits packageName track apkVersionCodes
                 versionCodeListType (CodeList excluded)
               = ([GetTrack packageName track], Inr merged) \<and> set apkVersionCodes \<subseteq> set merged)
        \<and> (\<forall>re. js_RegExp js (''^'' @ e @ ''$'') = Some re \<longrightarrow>
             (\<exists>merged. newTrackVersionCodes js edits packageName track apkVersionCodes
                  versionCodeListType (Expression e)
                = ([GetTrack packageName track], Inr merged)
                \<and> set apkVersionCodes \<subseteq> set merged))"
    if ty: "versionCodeListType \<noteq> Some ''all''"
      and fetch: "gu_getTrack edits packageName track = Inr res"
      and rel: "releases res = release # rest"
    using newTrackVersionCodes_CodeList [OF ty fetch rel]
      newTrackVersionCodes_Expression [OF ty fetch rel] merged
    by blast
  from conditional all produced show ?thesis by blast
qed

theorem C3_uploaded_codes_kept_witness:
  "newTrackVersionCodes sample_runtime (play_with [1, 2, 3]) ''com.example'' ''beta'' [3, 4]
     (Some ''list'') (CodeList [Finite 2]) = ([GetTrack ''com.example'' ''beta''], Inr [1, 3, 4])
   \<and> set [3, 4] \<subseteq> set [1, 3, 4 :: int]
   \<and> (\<exists>merged. newTrackVersionCodes sample_runtime (play_with [10, 7, 123]) ''com.example''
          ''beta'' [7, 13, 13] (Some ''expression'') (Expression ''1.'')
        = ([GetTrack ''com.example'' ''beta''], Inr merged) \<and> set [7, 13, 13] \<subseteq> set merged)"
proof -
  have run: "newTrackVersionCodes sample_runtime (play_with [1, 2, 3]) ''com.example'' ''beta''
      [3, 4] (Some ''list'') (CodeList [Finite 2])
      = ([GetTrack ''com.example'' ''beta''], Inr [1, 3, 4])"
    by (simp add: newTrackVersionCodes_def play_with_def mergeVersionCodes_def
          keptVersionCodes_def keep_unless_listed_def add_if_absent_def indexOf_def push_def)
  from C3_uploaded_codes_kept [THEN conjunct1, rule_format, OF run]
  have a: "set [3, 4] \<subseteq> set [1, 3, 4 :: int]" .
  have source: "parse_source ''^1.$''
      = Parsed (Seq AssertStart (Seq (Chr CHR ''1'') (Seq Dot (Seq AssertEnd Empty))))"
    by code_simp
  have re: "js_RegExp sample_runtime (''^'' @ ''1.'' @ ''$'')
      = Some (\<lambda>s. String_match s
          (Seq AssertStart (Seq (Chr CHR ''1'') (Seq Dot (Seq AssertEnd Empty)))))"
    using modelled_RegExp [OF source] by (simp add: sample_runtime_def)
  have fetched: "Some ''expression'' \<noteq> Some ''all''
      \<and> gu_getTrack (play_with [10, 7, 123]) ''com.example'' ''beta''
          = Inr \<lparr>releases = [\<lparr>versionCodes = [10, 7, 123]\<rparr>]\<rparr>
      \<and> releases \<lparr>releases = [\<lparr>versionCodes = [10, 7, 123]\<rparr>]\<rparr> = \<lparr>versionCodes = [10, 7, 123]\<rparr> # []"
    by (simp add: play_with_def)
  from C3_uploaded_codes_kept [THEN conjunct2, THEN conjunct2, rule_format, OF fetched,
      THEN conjunct2, rule_format, OF re]
  have b: "\<exists>merged. newTrackVersionCodes sample_runtime (play_with [10, 7, 123]) ''com.example''
      ''beta'' [7, 13, 13] (Some ''expression'') (Expression ''1.'')
      = ([GetTrack ''com.example'' ''beta''], Inr merged) \<and> set [7, 13, 13] \<subseteq> set merged" .
  from run a b show ?thesis by blast
qed

text \<open>
  C4. With a list of version codes as the filter and a filter type other than \<^verbatim>\<open>'all'\<close>,
  a version code of the list is among the new version codes of the track only if it was
  uploaded (so one that the track held is removed unless it was uploaded again), and every
  version code of the fetched release that is not in the list is kept. Scenario B: the
  track holds 1, 2, 3, the list is 2 and 4 is uploaded, the result is 1, 3, 4.
\<close>

theorem C4_explicit_list:
  assumes "newTrackVersionCodes js edits packageName track apkVersionCodes versionCodeListType
             (CodeList excluded) = (calls, Inr codes)"
    and "versionCodeListType \<noteq> Some ''all''"
    and "gu_getTrack edits packageName track = Inr res"
    and "releases res = release # rest"
  shows "(\<forall>c. Finite c \<in> set excluded \<longrightarrow> (c \<in> set codes \<longleftrightarrow> c \<in> set apkVersionCodes))
       \<and> (\<forall>c\<in>set (versionCodes release). Finite c \<notin> set excluded \<longrightarrow> c \<in> set codes)"
proof -
  from assms have
    "codes = [c\<leftarrow>versionCodes release. Finite c \<notin> set excluded]
       @ rev (remdups (rev [c\<leftarrow>apkVersionCodes.
                c \<notin> set [c\<leftarrow>versionCodes release. Finite c \<notin> set excluded]]))"
    by (simp add: newTrackVersionCodes_CodeList)
  then show ?thesis by auto
qed

theorem C4_explicit_list_witness:
  "newTrackVersionCodes sample_runtime (play_with [1, 2, 3]) ''com.example'' ''beta'' [4]
     (Some ''list'') (CodeList [Finite 2]) = ([GetTrack ''com.example'' ''beta''], Inr [1, 3, 4])
   \<and> (2::int) \<notin> set [1, 3, 4] \<and> (1::int) \<in> set [1, 3, 4] \<and> (3::int) \<in> set [1, 3, 4]"
proof -
  have run: "newTrackVersionCodes sample_runtime (play_with [1, 2, 3]) ''com.example'' ''beta''
      [4] (Some ''list'') (CodeList [Finite 2])
      = ([GetTrack ''com.example'' ''beta''], Inr [1, 3, 4])"
    by (simp add: newTrackVersionCodes_def play_with_def mergeVersionCodes_def
          keptVersionCodes_def keep_unless_listed_def add_if_absent_def indexOf_def push_def)
  have fetch: "gu_getTrack (play_with [1, 2, 3]) ''com.example'' ''beta''
      = Inr \<lparr>releases = [\<lparr>versionCodes = [1, 2, 3]\<rparr>]\<rparr>"
    by (simp add: play_with_def)
  have "(\<forall>c. Finite c \<in> set [Finite 2] \<longrightarrow> (c \<in> set [1, 3, 4] \<longleftrightarrow> c \<in> set [4 :: int]))
      \<and> (\<forall>c\<in>set (versionCodes \<lparr>versionCodes = [1, 2, 3]\<rparr>).
            Finite c \<notin> set [Finite 2] \<longrightarrow> c \<in> set [1, 3, 4 :: int])"
    by (rule C4_explicit_list [OF run _ fetch]) simp_all
  with run show ?thesis by simp
qed

text \<open>
  C5. For every runtime that agrees with the model: the expression \<^verbatim>\<open>1|2\<close> is compiled
  from the text \<^verbatim>\<open>^1|2$\<close>, whose first alternative is anchored at the start only and
  whose second at the end only: 13 and 32 are removed although their decimal strings do
  not fully match \<^verbatim>\<open>1|2\<close>; 21 is kept.
\<close>

theorem C5_alternation_is_not_anchored:
  "fully_matches ''1|2'' (js_toString (modelled js) 13) = Some False
   \<and> fully_matches ''1|2'' (js_toString (modelled js) 32) = Some False
   \<and> newTrackVersionCodes (modelled js) (play_with [13, 21, 32, 1, 2]) ''com.example'' ''beta'' []
       (Some ''expression'') (Expression ''1|2'')
     = ([GetTrack ''com.example'' ''beta''], Inr [21])"
proof -
  let ?re = "Alt (Seq AssertStart (Seq (Chr CHR ''1'') Empty)) (Seq (Chr CHR ''2'') (Seq AssertEnd Empty))"
  have printed: "js_toString (modelled js) 13 = ''13''" "js_toString (modelled js) 21 = ''21''"
    "js_toString (modelled js) 32 = ''32''" "js_toString (modelled js) 1 = ''1''"
    "js_toString (modelled js) 2 = ''2''"
    by (simp_all add: modelled_toString) code_simp+
  have full: "fully_matches ''1|2'' ''13'' = Some False" "fully_matches ''1|2'' ''32'' = Some False"
    by code_simp+
  have source: "parse_source ''^1|2$'' = Parsed ?re"
    by code_simp
  have re: "js_RegExp (modelled js) (''^'' @ ''1|2'' @ ''$'') = Some (\<lambda>s. String_match s ?re)"
    using modelled_RegExp [OF source] by simp
  have matches: "String_match ''13'' ?re" "\<not> String_match ''21'' ?re" "String_match ''32'' ?re"
    "String_match ''1'' ?re" "String_match ''2'' ?re"
    by code_simp+
  have fetch: "gu_getTrack (play_with [13, 21, 32, 1, 2]) ''com.example'' ''beta''
      = Inr \<lparr>releases = [\<lparr>versionCodes = [13, 21, 32, 1, 2]\<rparr>]\<rparr>"
    by (simp add: play_with_def)
  have "newTrackVersionCodes (modelled js) (play_with [13, 21, 32, 1, 2]) ''com.example'' ''beta''
      [] (Some ''expression'') (Expression ''1|2'')
      = ([GetTrack ''com.example'' ''beta''], Inr [21])"
    by (simp add: newTrackVersionCodes_Expression [OF _ fetch _ re] printed matches)
  with printed full show ?thesis by simp
qed

text \<open>The example of the claim: the expression \<^verbatim>\<open>123\<close> removes 123 and keeps 1234.\<close>

lemma expression_123:
  "newTrackVersionCodes sample_runtime (play_with [123, 1234]) ''com.example'' ''beta'' []
     (Some ''expression'') (Expression ''123'')
   = ([GetTrack ''com.example'' ''beta''], Inr [1234])"
  by code_simp

text \<open>
  C6. For every runtime and every filter type other than \<^verbatim>\<open>'all'\<close>, once the track is
  fetched and has a release: with a list filter the new version codes of the track are
  the version codes of the release outside the list, in the order of the release,
  followed by the uploaded version codes that are not among those, each once, in the
  order of their first upload; with an expression that compiles they are the version
  codes of the release whose string the expression does not match, followed in the same
  way by the uploads. Whatever the filter is, a list that is computed has this form.
\<close>

theorem C6_survivors_then_uploads:
  assumes "versionCodeListType \<noteq> Some ''all''"
    and "gu_getTrack edits packageName track = Inr res"
    and "releases res = release # rest"
  shows
    "newTrackVersionCodes js edits packageName track apkVersionCodes versionCodeListType
        (CodeList excluded)
       = ([GetTrack packageName track],
          Inr ([c\<leftarrow>versionCodes release. Finite c \<notin> set excluded]
               @ rev (remdups (rev [c\<leftarrow>apkVersionCodes.
                    c \<notin> set [c\<leftarrow>versionCodes release. Finite c \<notin> set excluded]]))))
     \<and> (\<forall>re. js_RegExp js (''^'' @ e @ ''$'') = Some re \<longrightarrow>
          newTrackVersionCodes js edits packageName track apkVersionCodes versionCodeListType
            (Expression e)
          = ([GetTrack packageName track],
             Inr ([c\<leftarrow>versionCodes release. \<not> re (js_toString js c)]
                  @ rev (remdups (rev [c\<leftarrow>apkVersionCodes.
                       c \<notin> set [c\<leftarrow>versionCodes release. \<not> re (js_toString js c)]])))))
     \<and> (\<forall>calls codes.
          newTrackVersionCodes js edits packageName track apkVersionCodes versionCodeListType
            versionCodeFilter = (calls, Inr codes) \<longrightarrow>
          (\<exists>kept. kept = [c\<leftarrow>versionCodes release. c \<in> set kept]
             \<and> codes = kept @ rev (remdups (rev [c\<leftarrow>apkVersionCodes. c \<notin> set kept]))
             \<and> (distinct apkVersionCodes \<longrightarrow>
                  codes = kept @ [c\<leftarrow>apkVersionCodes. c \<notin> set kept])))"
proof (intro conjI allI impI)
  show "newTrackVersionCodes js edits packageName track apkVersionCodes versionCodeListType
        (CodeList excluded)
       = ([GetTrack packageName track],
          Inr ([c\<leftarrow>versionCodes release. Finite c \<notin> set excluded]
               @ rev (remdups (rev [c\<leftarrow>apkVersionCodes.
                    c \<notin> set [c\<leftarrow>versionCodes release. Finite c \<notin> set excluded]]))))"
    using assms by (rule newTrackVersionCodes_CodeList)
next
  fix re assume "js_RegExp js (''^'' @ e @ ''$'') = Some re"
  with assms show
    "newTrackVersionCodes js edits packageName track apkVersionCodes versionCodeListType
        (Expression e)
      = ([GetTrack packageName track],
         Inr ([c\<leftarrow>versionCodes release. \<not> re (js_toString js c)]
              @ rev (remdups (rev [c\<leftarrow>apkVersionCodes.
                   c \<notin> set [c\<leftarrow>versionCodes release. \<not> re (js_toString js c)]]))))"
    by (rule newTrackVersionCodes_Expression)
next
  fix calls codes
  assume "newTrackVersionCodes js edits packageName track apkVersionCodes versionCodeListType
      versionCodeFilter = (calls, Inr codes)"
  with assms have "mergeVersionCodes js res apkVersionCodes versionCodeFilter = Inr codes"
    by (simp add: newTrackVersionCodes_fetched)
  with assms(3) obtain kept where
    kept: "keptVersionCodes js (versionCodes release) versionCodeFilter = Inr kept"
    and codes: "codes = kept @ rev (remdups (rev [c\<leftarrow>apkVersionCodes. c \<notin> set kept]))"
    by (auto simp: mergeVersionCodes_Inr)
  have order: "kept = [c\<leftarrow>versionCodes release. c \<in> set kept]"
    using kept by (rule keptVersionCodes_filter)
  have once: "distinct apkVersionCodes \<longrightarrow> codes = kept @ [c\<leftarrow>apkVersionCodes. c \<notin> set kept]"
    unfolding codes by (simp add: first_occurrences_distinct)
  from order codes once show
    "\<exists>kept. kept = [c\<leftarrow>versionCodes release. c \<in> set kept]
       \<and> codes = kept @ rev (remdups (rev [c\<leftarrow>apkVersionCodes. c \<notin> set kept]))
       \<and> (distinct apkVersionCodes \<longrightarrow> codes = kept @ [c\<leftarrow>apkVersionCodes. c \<notin> set kept])"
    by blast
qed

theorem C6_survivors_then_uploads_witness:
  "newTrackVersionCodes sample_runtime (play_with [1, 2, 3]) ''com.example'' ''beta'' [4, 3, 4]
     (Some ''list'') (CodeList [Finite 2]) = ([GetTrack ''com.example'' ''beta''], Inr [1, 3, 4])
   \<and> newTrackVersionCodes sample_runtime (play_with [10, 7, 123]) ''com.example'' ''beta''
       [7, 13, 13] (Some ''expression'') (Expression ''1.'')
     = ([GetTrack ''com.example'' ''beta''], Inr [7, 123, 13])"
proof -
  have list_fetch: "gu_getTrack (play_with [1, 2, 3]) ''com.example'' ''beta''
      = Inr \<lparr>releases = [\<lparr>versionCodes = [1, 2, 3]\<rparr>]\<rparr>"
    by (simp add: play_with_def)
  have release: "releases \<lparr>releases = [\<lparr>versionCodes = old\<rparr>]\<rparr> = \<lparr>versionCodes = old\<rparr> # []" for old
    by simp
  have list_type: "Some ''list'' \<noteq> Some ''all''" by simp
  from C6_survivors_then_uploads [OF list_type list_fetch release, THEN conjunct1,
      of sample_runtime "[4, 3, 4]" "[Finite 2]"]
  have a: "newTrackVersionCodes sample_runtime (play_with [1, 2, 3]) ''com.example'' ''beta''
      [4, 3, 4] (Some ''list'') (CodeList [Finite 2])
      = ([GetTrack ''com.example'' ''beta''], Inr [1, 3, 4])"
    by simp
  have source: "parse_source ''^1.$''
      = Parsed (Seq AssertStart (Seq (Chr CHR ''1'') (Seq Dot (Seq AssertEnd Empty))))"
    by code_simp
  have re: "js_RegExp sample_runtime (''^'' @ ''1.'' @ ''$'')
      = Some (\<lambda>s. String_match s
          (Seq AssertStart (Seq (Chr CHR ''1'') (Seq Dot (Seq AssertEnd Empty)))))"
    using modelled_RegExp [OF source] by (simp add: sample_runtime_def)
  have printed: "js_toString sample_runtime 10 = ''10''" "js_toString sample_runtime 7 = ''7''"
    "js_toString sample_runtime 123 = ''123''"
    by (simp_all add: sample_runtime_def modelled_toString) code_simp+
  have matches:
    "String_match ''10'' (Seq AssertStart (Seq (Chr CHR ''1'') (Seq Dot (Seq AssertEnd Empty))))"
    "\<not> String_match ''7'' (Seq AssertStart (Seq (Chr CHR ''1'') (Seq Dot (Seq AssertEnd Empty))))"
    "\<not> String_match ''123'' (Seq AssertStart (Seq (Chr CHR ''1'') (Seq Dot (Seq AssertEnd Empty))))"
    by code_simp+
  have expression_fetch: "gu_getTrack (play_with [10, 7, 123]) ''com.example'' ''beta''
      = Inr \<lparr>releases = [\<lparr>versionCodes = [10, 7, 123]\<rparr>]\<rparr>"
    by (simp add: play_with_def)
  have expression_type: "Some ''expression'' \<noteq> Some ''all''" by simp
  from C6_survivors_then_uploads [OF expression_type expression_fetch release, THEN conjunct2,
      THEN conjunct1, rule_format, OF re, of "[7, 13, 13]"]
  have b: "newTrackVersionCodes sample_runtime (play_with [10, 7, 123]) ''com.example'' ''beta''
      [7, 13, 13] (Some ''expression'') (Expression ''1.'')
      = ([GetTrack ''com.example'' ''beta''], Inr [7, 123, 13])"
    by (simp add: printed matches)
  from a b show ?thesis by simp
qed

text \<open>
  C7. With the filter type \<^verbatim>\<open>'all'\<close> the new version codes of the track are exactly the
  uploaded ones, whatever the runtime, the track and the filter value are; no call is
  made on the way. Scenario A: the track holds 1, 2, 3 and 4 is uploaded, the result is 4.
\<close>

theorem C7_all_returns_uploaded:
  "newTrackVersionCodes js edits packageName track apkVersionCodes (Some ''all'')
     versionCodeFilter = ([], Inr apkVersionCodes)
   \<and> newTrackVersionCodes js (play_with [1, 2, 3]) packageName track [4] (Some ''all'')
     versionCodeFilter = ([], Inr [4])"
  by (simp add: newTrackVersionCodes_def)

text \<open>
  C8. For every runtime that agrees with the model: the entries \<^verbatim>\<open>1.5\<close> and \<^verbatim>\<open>12abc\<close>
  of the list input, which are no integers, are accepted as 1 and 12, since \<^verbatim>\<open>parseInt\<close>
  reads the digits at the start of an entry and ignores what follows. Entries without a
  positive number at their start are rejected and named in the error.
\<close>

theorem C8_non_integer_entries_accepted:
  "getVersionCodeListInput (modelled js) [''1.5'', ''12abc''] = Inr [Finite 1, Finite 12]
   \<and> getVersionCodeListInput (modelled js) [''0'', ''abc'', '' 5'', ''-3 '']
     = Inl (IncorrectVersionCodeFilter [''0'', ''abc'', ''-3''])"
proof -
  have trimmed: "trim ''1.5'' = ''1.5''" "trim ''12abc'' = ''12abc''" "trim ''0'' = ''0''"
    "trim ''abc'' = ''abc''" "trim '' 5'' = ''5''" "trim ''-3 '' = ''-3''"
    by code_simp+
  have "parseInt_below_2_53 (\<lambda>str. NaN) ''1.5'' = Finite 1"
    "parseInt_below_2_53 (\<lambda>str. NaN) ''12abc'' = Finite 12"
    "parseInt_below_2_53 (\<lambda>str. NaN) ''0'' = Finite 0"
    "parseInt_below_2_53 (\<lambda>str. NaN) ''5'' = Finite 5"
    "parseInt_below_2_53 (\<lambda>str. NaN) ''-3'' = Finite (- 3)"
    by code_simp+
  then have parsed: "js_parseInt (modelled js) ''1.5'' = Finite 1"
    "js_parseInt (modelled js) ''12abc'' = Finite 12"
    "js_parseInt (modelled js) ''0'' = Finite 0"
    "js_parseInt (modelled js) ''5'' = Finite 5"
    "js_parseInt (modelled js) ''-3'' = Finite (- 3)"
    by (simp_all add: modelled_parseInt)
  have "takeWhile is_digit
      (case dropWhile is_space ''abc'' of [] \<Rightarrow> []
       | c # cs \<Rightarrow> if c = CHR ''-'' \<or> c = CHR ''+'' then cs else dropWhile is_space ''abc'') = []"
    by code_simp
  then have no_digit: "js_parseInt (modelled js) ''abc'' = NaN"
    by (rule modelled_parseInt_NaN)
  show ?thesis
    by (simp add: getVersionCodeListInput_def checkVersionCode_def trimmed parsed no_digit
          push_def)
qed

text \<open>
  C9. Without a filter type the filter value stays \<^verbatim>\<open>null\<close> and \<^verbatim>\<open>updateTrack\<close> takes
  the branch of the other filter types: the track is fetched, and the first version code
  of the release makes the call of \<^verbatim>\<open>indexOf\<close> on \<^verbatim>\<open>null\<close> throw.
\<close>

theorem C9_absent_filter_type_fetches_and_throws:
  "versionCodeFilter_input js None [] None = Inr Null
   \<and> newTrackVersionCodes js (play_with [1]) ''com.example'' ''beta'' [2] None Null
     = ([GetTrack ''com.example'' ''beta''], Inl TypeError)"
  by (simp add: versionCodeFilter_input_def newTrackVersionCodes_def play_with_def
        mergeVersionCodes_def keptVersionCodes_def keep_unless_listed_def)

text \<open>
  C10. With the filter type \<^verbatim>\<open>'all'\<close> the only call \<^verbatim>\<open>updateTrack\<close> makes is the update
  of the track, so the track is not fetched. The error for a track that cannot be
  downloaded arises only with another filter type and a fetch that throws, and then it
  does arise, before anything else is called. Among the three documented filter types
  these are \<^verbatim>\<open>'list'\<close> and \<^verbatim>\<open>'expression'\<close>.
\<close>

theorem C10_all_never_fetches:
  "fst (updateTrack js edits packageName track apkVersionCodes (Some ''all'') versionCodeFilter
          opts)
     = [UpdateTrack packageName track apkVersionCodes opts]
   \<and> (snd (updateTrack js edits packageName track apkVersionCodes versionCodeListType
               versionCodeFilter opts) = Inl (CannotDownloadTrack t e)
        \<longrightarrow> versionCodeListType \<noteq> Some ''all'' \<and> gu_getTrack edits packageName track = Inl e)
   \<and> (versionCodeListType \<noteq> Some ''all'' \<and> gu_getTrack edits packageName track = Inl e
        \<longrightarrow> updateTrack js edits packageName track apkVersionCodes versionCodeListType
              versionCodeFilter opts
            = ([GetTrack packageName track], Inl (CannotDownloadTrack track e)))
   \<and> (versionCodeListType \<in> {Some ''all'', Some ''list'', Some ''expression''}
        \<and> snd (updateTrack js edits packageName track apkVersionCodes versionCodeListType
               versionCodeFilter opts) = Inl (CannotDownloadTrack t e)
        \<longrightarrow> versionCodeListType \<in> {Some ''list'', Some ''expression''})"
proof -
  have no_fetch_error: "mergeVersionCodes js res apkVersionCodes versionCodeFilter
      \<noteq> Inl (CannotDownloadTrack t e)" for res
    using mergeVersionCodes_error [of js res apkVersionCodes versionCodeFilter] by auto
  show ?thesis
    using no_fetch_error
    by (auto simp: updateTrack_def newTrackVersionCodes_def split: sum.splits prod.splits)
qed

theorem C10_all_never_fetches_witness:
  "updateTrack sample_runtime play_unreachable ''com.example'' ''beta'' [4] (Some ''list'')
     (CodeList [Finite 2]) full_rollout
     = ([GetTrack ''com.example'' ''beta''], Inl (CannotDownloadTrack ''beta'' ''not found''))
   \<and> Some ''list'' \<noteq> Some ''all''
   \<and> fst (updateTrack sample_runtime play_unreachable ''com.example'' ''beta'' [4] (Some ''all'')
       (CodeList [Finite 2]) full_rollout) = [UpdateTrack ''com.example'' ''beta'' [4] full_rollout]"
proof -
  have fetch: "gu_getTrack play_unreachable ''com.example'' ''beta'' = Inl ''not found''"
    by (simp add: play_unreachable_def)
  note C10 = C10_all_never_fetches [where js = sample_runtime and edits = play_unreachable
      and packageName = "''com.example''" and track = "''beta''" and apkVersionCodes = "[4]"
      and versionCodeFilter = "CodeList [Finite 2]" and opts = full_rollout
      and versionCodeListType = "Some ''list''" and t = "''beta''" and e = "''not found''"]
  from C10 fetch
  have run: "updateTrack sample_runtime play_unreachable ''com.example'' ''beta'' [4]
      (Some ''list'') (CodeList [Finite 2]) full_rollout
      = ([GetTrack ''com.example'' ''beta''], Inl (CannotDownloadTrack ''beta'' ''not found''))"
    by simp
  with C10 have "Some ''list'' \<noteq> Some ''all''" by simp
  with run C10 show ?thesis by simp
qed

end
